theory Spec2Isabelle
  imports Main "HOL-Library.Sublist" "HOL-Library.Monad_Syntax"
begin

section \<open>JavaScript values\<close>

text \<open>
  The values that \<^verbatim>\<open>tailwind.config.js\<close> builds: string and boolean literals, array
  literals and object literals. An object literal is kept as the list of its properties
  in the order they are written, which is the order JavaScript enumerates string keys in.
  \<open>JForeign\<close> stands for a value the file does not build itself (a function exported by a
  package it requires); \<open>'f\<close> is whatever such values are.
\<close>

datatype 'f js_value =
    JString string
  | JBoolean bool
  | JArray "'f js_value list"
  | JObject "(string \<times> 'f js_value) list"
  | JForeign 'f

text \<open>
  \<open>property v k\<close> is the property access \<^verbatim>\<open>v.k\<close> on own properties; \<open>None\<close> is
  JavaScript's \<^verbatim>\<open>undefined\<close>. \<open>keys\<close> is \<^verbatim>\<open>Object.keys\<close>.
\<close>

fun property :: "'f js_value \<Rightarrow> string \<Rightarrow> 'f js_value option" where
  "property (JObject kvs) k = map_of kvs k"
| "property _ k = None"

fun keys :: "'f js_value \<Rightarrow> string list" where
  "keys (JObject kvs) = map fst kvs"
| "keys _ = []"

section \<open>The configuration module\<close>

text \<open>
  \<^verbatim>\<open>
  module.exports = {
    purge: [
      "./_includes/**/*.html",
      "./_layouts/**/*.html",
      "./_posts/*.md",
      "./*.html",
    ],
    darkMode: false,
    theme: {
      colors: {
        curiosity: {
          lightest: "#EFFFCD",
          light: "#DCE9BE",
          dirt: "#555152",
          magenta: "#2E2633",
          red: "#99173C",
        },
      },
      minWidth: {
        full: "640px",
      },
    },
    variants: {},
    plugins: [require("@tailwindcss/typography")],
  };
  \<close>
  The right-hand side is an object literal whose only subexpression that is not a literal
  is the call of \<^verbatim>\<open>require\<close>. \<open>module_exports typography\<close> is the literal, with the value
  that call returned.
\<close>

definition module_exports :: "'f js_value \<Rightarrow> 'f js_value" where
  "module_exports typography =
     JObject
       [(''purge'',
           JArray
             [JString ''./_includes/**/*.html'',
              JString ''./_layouts/**/*.html'',
              JString ''./_posts/*.md'',
              JString ''./*.html'']),
        (''darkMode'', JBoolean False),
        (''theme'',
           JObject
             [(''colors'',
                 JObject
                   [(''curiosity'',
                       JObject
                         [(''lightest'', JString ''#EFFFCD''),
                          (''light'', JString ''#DCE9BE''),
                          (''dirt'', JString ''#555152''),
                          (''magenta'', JString ''#2E2633''),
                          (''red'', JString ''#99173C'')])]),
              (''minWidth'',
                 JObject
                   [(''full'', JString ''640px'')])]),
        (''variants'', JObject []),
        (''plugins'', JArray [typography])]"

text \<open>
  The module object that Node hands to the file; the file assigns its \<open>exports\<close> field.
\<close>

record 'f module =
  exports :: "'f js_value"

text \<open>
  Running the file. \<open>require\<close> is the module loader of the environment: it returns the
  exports of the named package, or fails (the package is missing, or throws while it
  loads) with an error of type \<open>'e\<close>. The call is evaluated while the object literal is
  built, before the assignment, so a failure leaves the module object as it was and the
  file exports nothing.
\<close>

definition tailwind_config ::
  "(string \<Rightarrow> 'e + 'f js_value) \<Rightarrow> ('f, 'a) module_scheme \<Rightarrow> 'e + ('f, 'a) module_scheme" where
  "tailwind_config require module =
     (case require ''@tailwindcss/typography'' of
        Inl e \<Rightarrow> Inl e
      | Inr typography \<Rightarrow> Inr (module\<lparr>exports := module_exports typography\<rparr>))"

section \<open>Reading a value by its shape\<close>

text \<open>
  \<open>path v ks\<close> is the chain of property accesses \<^verbatim>\<open>v.k1.k2...\<close>, undefined as soon as
  one step is.
\<close>

fun path :: "'f js_value \<Rightarrow> string list \<Rightarrow> 'f js_value option" where
  "path v [] = Some v"
| "path v (k # ks) = property v k \<bind> (\<lambda>u. path u ks)"

text \<open>
  A consumer of the configuration expects each field to have a type: a string, a boolean,
  an array, an object. Each reader returns the content of a value of its type, and
  \<open>None\<close> for a value of any other type.
\<close>

fun as_string :: "'f js_value \<Rightarrow> string option" where
  "as_string (JString s) = Some s"
| "as_string _ = None"

fun as_boolean :: "'f js_value \<Rightarrow> bool option" where
  "as_boolean (JBoolean b) = Some b"
| "as_boolean _ = None"

fun as_array :: "'f js_value \<Rightarrow> 'f js_value list option" where
  "as_array (JArray xs) = Some xs"
| "as_array _ = None"

fun as_object :: "'f js_value \<Rightarrow> (string \<times> 'f js_value) list option" where
  "as_object (JObject kvs) = Some kvs"
| "as_object _ = None"

text \<open>An array all of whose elements are strings, in order.\<close>

definition as_strings :: "'f js_value \<Rightarrow> string list option" where
  "as_strings v = as_array v \<bind> (\<lambda>xs. those (map as_string xs))"

text \<open>
  An object used as a mapping from names to values that \<open>read\<close> accepts: the entries in
  the order written, each value read.
\<close>

definition as_table :: "('f js_value \<Rightarrow> 'a option) \<Rightarrow> 'f js_value \<Rightarrow> (string \<times> 'a) list option" where
  "as_table read v =
     as_object v \<bind> (\<lambda>kvs. those (map (\<lambda>(k, x). map_option (Pair k) (read x)) kvs))"

section \<open>The shape of the configuration\<close>

text \<open>
  The interface of the configuration file, as its consumer sees it: \<open>purge\<close> an ordered
  list of glob patterns, \<open>darkMode\<close> a flag, \<open>theme.colors\<close> a mapping from palette name
  to a mapping from shade name to colour, \<open>theme.minWidth\<close> a mapping from token name to
  length, \<open>variants\<close> an object and \<open>plugins\<close> a list of plugin references.
\<close>

record theme_tokens =
  colors :: "(string \<times> (string \<times> string) list) list"
  minWidth :: "(string \<times> string) list"

record 'f configuration =
  purge :: "string list"
  darkMode :: bool
  theme :: theme_tokens
  variants :: "(string \<times> 'f js_value) list"
  plugins :: "'f js_value list"

text \<open>
  \<open>read_config\<close> reads an exported value by that shape; it is \<open>None\<close> when a field is
  missing or has another type.
\<close>

definition read_theme :: "'f js_value \<Rightarrow> theme_tokens option" where
  "read_theme v = do {
     c \<leftarrow> path v [''colors''] \<bind> as_table (as_table as_string);
     w \<leftarrow> path v [''minWidth''] \<bind> as_table as_string;
     Some \<lparr>colors = c, minWidth = w\<rparr>
   }"

definition read_config :: "'f js_value \<Rightarrow> 'f configuration option" where
  "read_config v = do {
     p \<leftarrow> path v [''purge''] \<bind> as_strings;
     d \<leftarrow> path v [''darkMode''] \<bind> as_boolean;
     t \<leftarrow> path v [''theme''] \<bind> read_theme;
     vs \<leftarrow> path v [''variants''] \<bind> as_object;
     ps \<leftarrow> path v [''plugins''] \<bind> as_array;
     Some \<lparr>purge = p, darkMode = d, theme = t, variants = vs, plugins = ps\<rparr>
   }"

text \<open>
  The reference: the expected static token mapping, written out as a record of that
  shape. \<open>typography\<close> is the reference to the typography plugin.
\<close>

definition expected_config :: "'f js_value \<Rightarrow> 'f configuration" where
  "expected_config typography =
     \<lparr>purge =
        [''./_includes/**/*.html'', ''./_layouts/**/*.html'', ''./_posts/*.md'', ''./*.html''],
      darkMode = False,
      theme =
        \<lparr>colors =
           [(''curiosity'',
               [(''lightest'', ''#EFFFCD''),
                (''light'', ''#DCE9BE''),
                (''dirt'', ''#555152''),
                (''magenta'', ''#2E2633''),
                (''red'', ''#99173C'')])],
         minWidth = [(''full'', ''640px'')]\<rparr>,
      variants = [],
      plugins = [typography]\<rparr>"

section \<open>String formats\<close>

text \<open>A hex colour: \<^verbatim>\<open>#\<close> followed by six hexadecimal digits.\<close>

definition is_hex_digit :: "char \<Rightarrow> bool" where
  "is_hex_digit c = (c \<in> set ''0123456789abcdefABCDEF'')"

definition is_hex_color :: "string \<Rightarrow> bool" where
  "is_hex_color s =
     (case s of
        [] \<Rightarrow> False
      | c # ds \<Rightarrow> c = CHR ''#'' \<and> length ds = 6 \<and> list_all is_hex_digit ds)"

text \<open>
  A CSS length: a number (digits, with an optional fraction) followed by a length unit.
\<close>

definition is_digit :: "char \<Rightarrow> bool" where
  "is_digit c = (c \<in> set ''0123456789'')"

definition is_number :: "string \<Rightarrow> bool" where
  "is_number s =
     (takeWhile is_digit s \<noteq> [] \<and>
      (case dropWhile is_digit s of
         [] \<Rightarrow> True
       | c # frac \<Rightarrow> c = CHR ''.'' \<and> frac \<noteq> [] \<and> list_all is_digit frac))"

definition css_length_units :: "string list" where
  "css_length_units =
     [''px'', ''em'', ''rem'', ''ex'', ''ch'', ''vw'', ''vh'', ''vmin'', ''vmax'',
      ''cm'', ''mm'', ''in'', ''pt'', ''pc'', ''Q'']"

definition is_css_length :: "string \<Rightarrow> bool" where
  "is_css_length s =
     (let numeric = (\<lambda>c. is_digit c \<or> c = CHR ''.'')
      in is_number (takeWhile numeric s) \<and> dropWhile numeric s \<in> set css_length_units)"

section \<open>The build tool\<close>

subsection \<open>The files it scans\<close>

text \<open>
  Modelled from the spec: the external CSS build tool's scan for class names, which is
  not part of the repository. Of it the interface says that \<open>purge\<close> is the ``ordered list
  of glob patterns (strings) identifying source files to scan for used class names'': a
  file is scanned when its path matches one of the patterns. Patterns and paths are read
  segment by segment, the segments separated by \<^verbatim>\<open>/\<close>. \<open>split_path\<close> cuts a string
  into its segments and \<open>join_path\<close> puts them together again.
\<close>

fun split_path :: "string \<Rightarrow> string list" where
  "split_path [] = [[]]"
| "split_path (c # s) =
     (if c = CHR ''/'' then [] # split_path s
      else (case split_path s of [] \<Rightarrow> [[c]] | seg # segs \<Rightarrow> (c # seg) # segs))"

fun join_path :: "string list \<Rightarrow> string" where
  "join_path [] = []"
| "join_path [seg] = seg"
| "join_path (seg # segs) = seg @ CHR ''/'' # join_path segs"

text \<open>
  Modelled from the spec: matching a glob pattern, as far as the patterns of the purge
  list need it. Within a segment \<^verbatim>\<open>*\<close> stands for any run of characters, possibly
  empty, and every other character for itself; a segment \<^verbatim>\<open>**\<close> stands for any number
  of directories, possibly none. Paths are written as the patterns are, from the root
  of the site and starting with \<^verbatim>\<open>./\<close>.
\<close>

fun match_segment :: "string \<Rightarrow> string \<Rightarrow> bool" where
  "match_segment [] s = (s = [])"
| "match_segment (c # p) [] = (c = CHR ''*'' \<and> match_segment p [])"
| "match_segment (c # p) (d # s) =
     (if c = CHR ''*'' then match_segment p (d # s) \<or> match_segment (c # p) s
      else c = d \<and> match_segment p s)"

fun match_path :: "string list \<Rightarrow> string list \<Rightarrow> bool" where
  "match_path [] fs = (fs = [])"
| "match_path (g # gs) [] = (g = ''**'' \<and> match_path gs [])"
| "match_path (g # gs) (f # fs) =
     (if g = ''**'' then match_path gs (f # fs) \<or> match_path (g # gs) fs
      else match_segment g f \<and> match_path gs fs)"

definition glob_match :: "string \<Rightarrow> string \<Rightarrow> bool" where
  "glob_match pattern file = match_path (split_path pattern) (split_path file)"

text \<open>
  Modelled from the spec: the scan itself. A file is scanned when the \<open>purge\<close> field is a
  list of patterns and the path of the file matches one of them.
\<close>

definition scanned :: "'f js_value \<Rightarrow> string \<Rightarrow> bool" where
  "scanned config file =
     (case path config [''purge''] \<bind> as_strings of
        None \<Rightarrow> False
      | Some ps \<Rightarrow> list_ex (\<lambda>p. glob_match p file) ps)"

subsection \<open>The colours it resolves\<close>

text \<open>
  Modelled from the spec: the external CSS build tool's colour palette, which is not part
  of the repository. The tool ``generates utility classes restricted to a fixed palette'',
  that of the configuration. It resolves the palette from the themes it is given, the
  theme of the configuration first, then the themes that the plugins carry: the
  \<open>colors\<close> of the first theme that has the field is the palette, the tool's own default
  palette being used only when none has it; what the themes hold under
  \<open>extend.colors\<close> is then merged into that palette, in order. The themes a plugin
  carries, the way an extension is merged and the default palette belong to the tool:
  they are the parameters \<open>plugin_themes\<close>, \<open>merge\<close> and \<open>default_colors\<close>.
\<close>

type_synonym 'f palette = "(string \<times> 'f js_value) list"

definition resolve_colors ::
  "('f js_value \<Rightarrow> 'f js_value list) \<Rightarrow> ('f palette \<Rightarrow> 'f palette \<Rightarrow> 'f palette) \<Rightarrow>
   'f palette \<Rightarrow> 'f js_value \<Rightarrow> 'f palette" where
  "resolve_colors plugin_themes merge default_colors config =
     (let themes =
            (case path config [''theme''] of None \<Rightarrow> [] | Some th \<Rightarrow> [th]) @
            (case path config [''plugins''] \<bind> as_array of
               None \<Rightarrow> []
             | Some ps \<Rightarrow> concat (map plugin_themes ps));
          extensions =
            List.map_filter (\<lambda>th. path th [''extend'', ''colors''] \<bind> as_object) themes
      in foldl merge
           (case List.map_filter (\<lambda>th. path th [''colors''] \<bind> as_object) themes of
              [] \<Rightarrow> default_colors
            | c # _ \<Rightarrow> c)
           extensions)"


section \<open>An environment\<close>

text \<open>
  For closed instances of the theorems: a loader in which the typography package is the
  only one installed and exports one function, the module object as Node creates it,
  its exports the empty object, and what the load makes of it. \<open>upgraded\<close> is a loader
  in which another build of the typography package is installed.
\<close>

definition installed :: "string \<Rightarrow> string + nat js_value" where
  "installed name =
     (if name = ''@tailwindcss/typography'' then Inr (JForeign 0) else Inl name)"

definition fresh_module :: "nat module" where
  "fresh_module = \<lparr>exports = JObject []\<rparr>"

definition loaded :: "nat module" where
  "loaded = fresh_module\<lparr>exports := module_exports (JForeign 0)\<rparr>"


section \<open>Loading\<close>

lemma tailwind_config_Inr:
  assumes "tailwind_config require module = Inr m"
  obtains typography where
    "require ''@tailwindcss/typography'' = Inr typography"
    "m = module\<lparr>exports := module_exports typography\<rparr>"
  using assms by (auto simp: tailwind_config_def split: sum.splits)

lemma tailwind_config_Inl:
  "require ''@tailwindcss/typography'' = Inl e \<Longrightarrow> tailwind_config require module = Inl e"
  by (simp add: tailwind_config_def)

lemma exports_loaded:
  assumes "tailwind_config require module = Inr m"
  obtains typography where
    "require ''@tailwindcss/typography'' = Inr typography"
    "exports m = module_exports typography"
  using assms by (elim tailwind_config_Inr) simp

text \<open>The load succeeds exactly when the typography package resolves.\<close>

lemma tailwind_config_succeeds_iff:
  "(\<exists>m. tailwind_config require module = Inr m) \<longleftrightarrow>
   (\<exists>t. require ''@tailwindcss/typography'' = Inr t)"
  by (auto simp: tailwind_config_def split: sum.splits)

lemma installed_loads: "tailwind_config installed fresh_module = Inr loaded"
  by (simp add: tailwind_config_def installed_def loaded_def)

section \<open>The readers\<close>

lemma those_as_string_iff: "those (map as_string xs) = Some ss \<longleftrightarrow> xs = map JString ss"
proof (induction xs arbitrary: ss)
  case Nil
  show ?case by auto
next
  case (Cons x xs)
  show ?case
    by (cases x; cases ss) (auto simp: Cons.IH split: option.splits)
qed

lemma as_strings_iff: "as_strings v = Some ss \<longleftrightarrow> v = JArray (map JString ss)"
  by (cases v) (auto simp: as_strings_def those_as_string_iff)

lemma as_table_as_string_iff:
  "as_table as_string v = Some kss \<longleftrightarrow> v = JObject (map (\<lambda>(k, s). (k, JString s)) kss)"
proof -
  have "those (map (\<lambda>(k, x). map_option (Pair k) (as_string x)) kvs) = Some kss \<longleftrightarrow>
        kvs = map (\<lambda>(k, s). (k, JString s)) kss" for kvs :: "(string \<times> 'a js_value) list"
  proof (induction kvs arbitrary: kss)
    case Nil
    show ?case by auto
  next
    case (Cons kv kvs)
    obtain k x where kv: "kv = (k, x)" by (cases kv)
    show ?case
      unfolding kv by (cases x; cases kss) (auto simp: Cons.IH split: option.splits)
  qed
  then show ?thesis
    by (cases v) (auto simp: as_table_def)
qed

lemma those_table_iff:
  "those (map (\<lambda>(k, x). map_option (Pair k) (read x)) kvs) = Some kas \<longleftrightarrow>
   map fst kvs = map fst kas \<and> map (\<lambda>(k, x). read x) kvs = map (\<lambda>(k, a). Some a) kas"
proof (induction kvs arbitrary: kas)
  case Nil
  show ?case by auto
next
  case (Cons kv kvs)
  obtain k x where kv: "kv = (k, x)" by (cases kv)
  show ?case
    unfolding kv by (cases kas) (auto simp: Cons.IH split: option.splits)
qed

lemma as_table_iff:
  "as_table read v = Some kas \<longleftrightarrow>
   (\<exists>kvs. v = JObject kvs \<and> map fst kvs = map fst kas \<and>
          map (\<lambda>(k, x). read x) kvs = map (\<lambda>(k, a). Some a) kas)"
  by (cases v) (auto simp: as_table_def those_table_iff)

lemma as_boolean_iff: "as_boolean v = Some b \<longleftrightarrow> v = JBoolean b"
  by (cases v) auto

lemma as_array_iff: "as_array v = Some xs \<longleftrightarrow> v = JArray xs"
  by (cases v) auto

lemma as_object_iff: "as_object v = Some kvs \<longleftrightarrow> v = JObject kvs"
  by (cases v) auto

lemma keys_Cons_iff: "keys v = k # ks \<longleftrightarrow> (\<exists>x kvs. v = JObject ((k, x) # kvs) \<and> map fst kvs = ks)"
  by (cases v) auto


lemma map_fst_Cons_iff: "map fst kvs = k # ks \<longleftrightarrow> (\<exists>x rest. kvs = (k, x) # rest \<and> map fst rest = ks)"
  by (cases kvs) auto

section \<open>The fields of the exported object\<close>

text \<open>
  No key is written twice in the literal, so a property access finds the one value
  written for its key.
\<close>

lemma keys_exports:
  "keys (module_exports t) = [''purge'', ''darkMode'', ''theme'', ''variants'', ''plugins'']"
  by (simp add: module_exports_def)

lemma keys_exports_distinct: "distinct (keys (module_exports t))"
  unfolding keys_exports by simp

lemma purge_exports:
  "(path (module_exports t) [''purge''] \<bind> as_strings) =
     Some [''./_includes/**/*.html'', ''./_layouts/**/*.html'', ''./_posts/*.md'', ''./*.html'']"
  by (simp add: module_exports_def as_strings_def)

lemma darkMode_exports: "property (module_exports t) ''darkMode'' = Some (JBoolean False)"
  by (simp add: module_exports_def)

lemma theme_keys_exports:
  "map_option keys (path (module_exports t) [''theme'']) = Some [''colors'', ''minWidth'']"
  by (simp add: module_exports_def)

lemma colors_exports:
  "(path (module_exports t) [''theme'', ''colors''] \<bind> as_table (as_table as_string)) =
     Some [(''curiosity'',
              [(''lightest'', ''#EFFFCD''),
               (''light'', ''#DCE9BE''),
               (''dirt'', ''#555152''),
               (''magenta'', ''#2E2633''),
               (''red'', ''#99173C'')])]"
  by (simp add: module_exports_def as_table_def)

lemma minWidth_exports:
  "(path (module_exports t) [''theme'', ''minWidth''] \<bind> as_table as_string) =
     Some [(''full'', ''640px'')]"
  by (simp add: module_exports_def as_table_def)

lemma variants_exports: "property (module_exports t) ''variants'' = Some (JObject [])"
  by (simp add: module_exports_def)

lemma plugins_exports: "property (module_exports t) ''plugins'' = Some (JArray [t])"
  by (simp add: module_exports_def)

lemma read_config_exports: "read_config (module_exports t) = Some (expected_config t)"
  by (simp add: module_exports_def read_config_def read_theme_def expected_config_def
      as_table_def as_strings_def)

text \<open>
  Reading by shape loses nothing: a value that reads as the reference and has no other
  field, at the top or in its theme, is the exported object.
\<close>

lemma read_config_determines:
  assumes r: "read_config v = Some (expected_config t)"
    and k: "keys v = [''purge'', ''darkMode'', ''theme'', ''variants'', ''plugins'']"
    and kt: "map_option keys (path v [''theme'']) = Some [''colors'', ''minWidth'']"
  shows "v = module_exports t"
proof -
  from k obtain a b c d e where
    v: "v = JObject [(''purge'', a), (''darkMode'', b), (''theme'', c), (''variants'', d), (''plugins'', e)]"
    by (auto simp: keys_Cons_iff map_fst_Cons_iff)
  from kt obtain c1 c2 where c: "c = JObject [(''colors'', c1), (''minWidth'', c2)]"
    by (auto simp: v keys_Cons_iff map_fst_Cons_iff)
  from r have a: "as_strings a = Some (purge (expected_config t))"
    and b: "as_boolean b = Some False"
    and c1: "as_table (as_table as_string) c1 = Some (colors (theme (expected_config t)))"
    and c2: "as_table as_string c2 = Some (minWidth (theme (expected_config t)))"
    and d: "as_object d = Some []"
    and e: "as_array e = Some [t]"
    by (auto simp: v c read_config_def read_theme_def expected_config_def split: Option.bind_splits)
  from c1 obtain sh where c1': "c1 = JObject [(''curiosity'', sh)]"
    and sh: "as_table as_string sh = Some [(''lightest'', ''#EFFFCD''),
               (''light'', ''#DCE9BE''),
               (''dirt'', ''#555152''),
               (''magenta'', ''#2E2633''),
               (''red'', ''#99173C'')]"
    by (auto simp: as_table_iff [of "as_table as_string"] expected_config_def map_fst_Cons_iff)
  show ?thesis
    using a b c2 d e sh
    by (simp add: v c c1' module_exports_def expected_config_def as_strings_iff as_boolean_iff
        as_table_as_string_iff as_object_iff as_array_iff)
qed

section \<open>Glob patterns\<close>

lemma split_path_not_Nil: "split_path s \<noteq> []"
  by (induction s) (auto split: list.splits)

lemma join_split_path: "join_path (split_path s) = s"
proof (induction s)
  case Nil
  show ?case by simp
next
  case (Cons c s)
  obtain seg segs where sp: "split_path s = seg # segs"
    using split_path_not_Nil [of s] by (cases "split_path s") auto
  from Cons.IH show ?case
    by (cases segs) (auto simp: sp)
qed

lemma split_path_no_separator: "seg \<in> set (split_path s) \<Longrightarrow> CHR ''/'' \<notin> set seg"
  by (induction s arbitrary: seg) (auto split: if_splits list.splits)

lemma suffix_last_join: "segs \<noteq> [] \<Longrightarrow> suffix (last segs) (join_path segs)"
  by (induction segs rule: join_path.induct) (auto simp: suffix_append intro: suffix_ConsI)

lemma suffix_last_split_path: "suffix (last (split_path s)) s"
  using suffix_last_join [OF split_path_not_Nil, of s] by (simp add: join_split_path)

lemma match_segment_literal:
  "CHR ''*'' \<notin> set p \<Longrightarrow> match_segment p s \<longleftrightarrow> s = p"
  by (induction p s rule: match_segment.induct) auto

lemma match_segment_star_literal:
  "CHR ''*'' \<notin> set lit \<Longrightarrow> match_segment (CHR ''*'' # lit) s \<Longrightarrow> suffix lit s"
proof (induction s)
  case Nil
  then show ?case by (simp add: match_segment_literal)
next
  case (Cons d s)
  then show ?case
    by (auto simp: match_segment_literal intro: suffix_ConsI)
qed

lemma match_path_last:
  "match_path gs fs \<Longrightarrow> gs \<noteq> [] \<Longrightarrow> last gs \<noteq> ''**'' \<Longrightarrow>
   fs \<noteq> [] \<and> match_segment (last gs) (last fs)"
  by (induction gs fs rule: match_path.induct) (auto split: if_splits)

lemma glob_match_html:
  assumes "glob_match p file" and "split_path p \<noteq> []" and "last (split_path p) = ''*.html''"
  shows "suffix ''.html'' file"
proof -
  from assms have "match_segment ''*.html'' (last (split_path file))"
    using match_path_last [of "split_path p" "split_path file"] by (simp add: glob_match_def)
  then have "suffix ''.html'' (last (split_path file))"
    by (intro match_segment_star_literal) simp_all
  then show ?thesis
    using suffix_last_split_path [of "file"] by (rule suffix_order.trans)
qed

lemma match_path_three:
  assumes "match_path [a, b, c] fs" and "a \<noteq> ''**''" and "b \<noteq> ''**''" and "c \<noteq> ''**''"
  obtains x y z where "fs = [x, y, z]" "match_segment a x" "match_segment b y" "match_segment c z"
proof (cases fs)
  case Nil
  with assms show ?thesis by simp
next
  case fs: (Cons x fs1)
  show ?thesis
  proof (cases fs1)
    case Nil
    with assms fs show ?thesis by simp
  next
    case fs1: (Cons y fs2)
    show ?thesis
    proof (cases fs2)
      case Nil
      with assms fs fs1 show ?thesis by simp
    next
      case fs2: (Cons z fs3)
      with assms fs fs1 have "fs3 = []" by simp
      with assms fs fs1 fs2 that show ?thesis by simp
    qed
  qed
qed

lemma glob_match_posts:
  assumes "glob_match ''./_posts/*.md'' file"
  shows "\<exists>name. file = ''./_posts/'' @ name \<and> CHR ''/'' \<notin> set name \<and> suffix ''.md'' name"
proof -
  from assms have "match_path [''.'', ''_posts'', ''*.md''] (split_path file)"
    by (simp add: glob_match_def)
  then obtain x y name where sp: "split_path file = [x, y, name]"
    and x: "match_segment ''.'' x" and y: "match_segment ''_posts'' y"
    and name: "match_segment ''*.md'' name"
    by (rule match_path_three) simp_all
  from x y have xy: "x = ''.''" "y = ''_posts''"
    by (simp_all add: match_segment_literal)
  have "file = join_path (split_path file)" by (simp add: join_split_path)
  then have "file = ''./_posts/'' @ name" by (simp add: sp xy)
  moreover have "CHR ''/'' \<notin> set name"
    by (rule split_path_no_separator [of _ "file"]) (simp add: sp)
  moreover from name have "suffix ''.md'' name"
    by (intro match_segment_star_literal) simp_all
  ultimately show ?thesis by blast
qed

section \<open>What the build tool makes of the configuration\<close>

text \<open>The scan, on paths of the site: what it takes and what it leaves.\<close>

lemma scanned_exports:
  "scanned (module_exports t) file \<longleftrightarrow>
   glob_match ''./_includes/**/*.html'' file \<or> glob_match ''./_layouts/**/*.html'' file \<or>
   glob_match ''./_posts/*.md'' file \<or> glob_match ''./*.html'' file"
  unfolding scanned_def purge_exports by simp

lemma scanned_post: "scanned (module_exports t) ''./_posts/2021-03-05-router.md''"
  by (simp add: scanned_exports glob_match_def)

lemma scanned_nested_include: "scanned (module_exports t) ''./_includes/nav/menu.html''"
  by (simp add: scanned_exports glob_match_def)

lemma scanned_include: "scanned (module_exports t) ''./_includes/head.html''"
  by (simp add: scanned_exports glob_match_def)

lemma scanned_page: "scanned (module_exports t) ''./index.html''"
  by (simp add: scanned_exports glob_match_def)

lemma not_scanned_nested_post: "\<not> scanned (module_exports t) ''./_posts/drafts/idea.md''"
  by (simp add: scanned_exports glob_match_def)

lemma not_scanned_readme: "\<not> scanned (module_exports t) ''./README.md''"
  by (simp add: scanned_exports glob_match_def)

lemma not_scanned_nested_page: "\<not> scanned (module_exports t) ''./about/index.html''"
  by (simp add: scanned_exports glob_match_def)

lemma not_scanned_stylesheet: "\<not> scanned (module_exports t) ''./assets/site.css''"
  by (simp add: scanned_exports glob_match_def)

lemma scanned_exports_only:
  assumes "scanned (module_exports t) file"
  shows "suffix ''.html'' file \<or>
         (\<exists>name. file = ''./_posts/'' @ name \<and> CHR ''/'' \<notin> set name \<and> suffix ''.md'' name)"
proof -
  from assms consider
    "glob_match ''./_includes/**/*.html'' file" | "glob_match ''./_layouts/**/*.html'' file" |
    "glob_match ''./_posts/*.md'' file" | "glob_match ''./*.html'' file"
    unfolding scanned_exports by blast
  then show ?thesis
  proof cases
    case 1
    then have "suffix ''.html'' file" by (rule glob_match_html) simp_all
    then show ?thesis ..
  next
    case 2
    then have "suffix ''.html'' file" by (rule glob_match_html) simp_all
    then show ?thesis ..
  next
    case 3
    then show ?thesis by (intro disjI2 glob_match_posts)
  next
    case 4
    then have "suffix ''.html'' file" by (rule glob_match_html) simp_all
    then show ?thesis ..
  qed
qed


lemma resolve_colors_default:
  "path config [''theme'', ''colors''] = None \<Longrightarrow> path config [''plugins''] = None \<Longrightarrow>
   path config [''theme'', ''extend''] = None \<Longrightarrow>
   resolve_colors plugin_themes merge d config = d"
  by (auto simp: resolve_colors_def split: option.splits Option.bind_splits)

section \<open>Properties of the exported configuration\<close>

text \<open>
  C1: loading the module yields the expected static token mapping. Read by its shape,
  the exported object is the reference record \<open>expected_config\<close>, field for field, with
  the value the loader returned for the typography package as its plugin; and the
  exported object and its theme have no other field.
\<close>

theorem exports_is_expected_config:
  assumes "tailwind_config require module = Inr m"
  shows "\<exists>t. require ''@tailwindcss/typography'' = Inr t \<and>
             read_config (exports m) = Some (expected_config t) \<and>
             keys (exports m) = [''purge'', ''darkMode'', ''theme'', ''variants'', ''plugins''] \<and>
             map_option keys (path (exports m) [''theme'']) = Some [''colors'', ''minWidth'']"
proof -
  from assms obtain t where
    t: "require ''@tailwindcss/typography'' = Inr t" and e: "exports m = module_exports t"
    by (rule exports_loaded)
  have "read_config (exports m) = Some (expected_config t)"
    unfolding e by (rule read_config_exports)
  moreover have
    "keys (exports m) = [''purge'', ''darkMode'', ''theme'', ''variants'', ''plugins'']"
    unfolding e by (rule keys_exports)
  moreover have "map_option keys (path (exports m) [''theme'']) = Some [''colors'', ''minWidth'']"
    unfolding e by (rule theme_keys_exports)
  ultimately show ?thesis using t by blast
qed

theorem exports_is_expected_config_witness:
  "tailwind_config installed fresh_module = Inr loaded \<and>
   (\<exists>t. installed ''@tailwindcss/typography'' = Inr t \<and>
        read_config (exports loaded) = Some (expected_config t) \<and>
        keys (exports loaded) = [''purge'', ''darkMode'', ''theme'', ''variants'', ''plugins''] \<and>
        map_option keys (path (exports loaded) [''theme'']) = Some [''colors'', ''minWidth''])"
  using installed_loads exports_is_expected_config [OF installed_loads] by (rule conjI)

text \<open>
  C2: the \<open>purge\<close> field is an array all of whose elements are strings, each a glob
  pattern (it has a wildcard), in the order written: the includes, the layouts, the
  posts, then the top-level pages.
\<close>

theorem purge_patterns_in_order:
  assumes "tailwind_config require module = Inr m"
  shows "\<exists>ps. (path (exports m) [''purge''] \<bind> as_strings) = Some ps \<and>
              ps = [''./_includes/**/*.html'', ''./_layouts/**/*.html'',
                    ''./_posts/*.md'', ''./*.html''] \<and>
              list_all (\<lambda>s. CHR ''*'' \<in> set s) ps"
proof -
  from assms obtain t where e: "exports m = module_exports t"
    by (rule exports_loaded)
  show ?thesis
    unfolding e purge_exports by simp
qed

theorem purge_patterns_in_order_witness:
  "tailwind_config installed fresh_module = Inr loaded \<and>
   (\<exists>ps. (path (exports loaded) [''purge''] \<bind> as_strings) = Some ps \<and>
         ps = [''./_includes/**/*.html'', ''./_layouts/**/*.html'',
               ''./_posts/*.md'', ''./*.html''] \<and>
         list_all (\<lambda>s. CHR ''*'' \<in> set s) ps)"
  using installed_loads purge_patterns_in_order [OF installed_loads] by (rule conjI)

text \<open>
  C3: \<open>theme.colors\<close> is a mapping from palette name to a mapping from shade name to
  string, and every shade of every palette is a hex colour: \<^verbatim>\<open>#\<close> and six hexadecimal
  digits.
\<close>

theorem colors_are_hex:
  assumes "tailwind_config require module = Inr m"
  shows "\<exists>ps. (path (exports m) [''theme'', ''colors''] \<bind> as_table (as_table as_string)) = Some ps \<and>
              ps \<noteq> [] \<and>
              list_all (\<lambda>(palette, shades). list_all (\<lambda>(shade, c). is_hex_color c) shades) ps"
proof -
  from assms obtain t where e: "exports m = module_exports t"
    by (rule exports_loaded)
  show ?thesis
    unfolding e colors_exports by (simp add: is_hex_color_def is_hex_digit_def)
qed

theorem colors_are_hex_witness:
  "tailwind_config installed fresh_module = Inr loaded \<and>
   (\<exists>ps. (path (exports loaded) [''theme'', ''colors''] \<bind> as_table (as_table as_string)) = Some ps \<and>
         ps \<noteq> [] \<and>
         list_all (\<lambda>(palette, shades). list_all (\<lambda>(shade, c). is_hex_color c) shades) ps)"
  using installed_loads colors_are_hex [OF installed_loads] by (rule conjI)

text \<open>C4: the \<open>darkMode\<close> field is the boolean false.\<close>

theorem darkMode_false:
  assumes "tailwind_config require module = Inr m"
  shows "property (exports m) ''darkMode'' = Some (JBoolean False)"
proof -
  from assms obtain t where e: "exports m = module_exports t"
    by (rule exports_loaded)
  show ?thesis
    unfolding e by (rule darkMode_exports)
qed

theorem darkMode_false_witness:
  "tailwind_config installed fresh_module = Inr loaded \<and>
   property (exports loaded) ''darkMode'' = Some (JBoolean False)"
  using installed_loads darkMode_false [OF installed_loads] by (rule conjI)

text \<open>
  C5: \<open>theme.minWidth\<close> is a mapping from token name to string, every value a CSS
  length (a number followed by a length unit); its one token, \<open>full\<close>, is \<open>640px\<close>.
\<close>

theorem minWidth_css_lengths:
  assumes "tailwind_config require module = Inr m"
  shows "\<exists>ws. (path (exports m) [''theme'', ''minWidth''] \<bind> as_table as_string) = Some ws \<and>
              list_all (\<lambda>(token, l). is_css_length l) ws \<and>
              ws = [(''full'', ''640px'')]"
proof -
  from assms obtain t where e: "exports m = module_exports t"
    by (rule exports_loaded)
  have "is_css_length ''640px''"
    by (simp add: is_css_length_def is_number_def is_digit_def css_length_units_def)
  then show ?thesis
    unfolding e minWidth_exports by simp
qed

theorem minWidth_css_lengths_witness:
  "tailwind_config installed fresh_module = Inr loaded \<and>
   (\<exists>ws. (path (exports loaded) [''theme'', ''minWidth''] \<bind> as_table as_string) = Some ws \<and>
         list_all (\<lambda>(token, l). is_css_length l) ws \<and>
         ws = [(''full'', ''640px'')])"
  using installed_loads minWidth_css_lengths [OF installed_loads] by (rule conjI)

text \<open>C6: the \<open>variants\<close> field is the empty object: an object with no key.\<close>

theorem variants_empty:
  assumes "tailwind_config require module = Inr m"
  shows "property (exports m) ''variants'' = Some (JObject []) \<and>
         map_option keys (property (exports m) ''variants'') = Some []"
proof -
  from assms obtain t where e: "exports m = module_exports t"
    by (rule exports_loaded)
  show ?thesis
    unfolding e variants_exports by simp
qed

theorem variants_empty_witness:
  "tailwind_config installed fresh_module = Inr loaded \<and>
   property (exports loaded) ''variants'' = Some (JObject []) \<and>
   map_option keys (property (exports loaded) ''variants'') = Some []"
  using installed_loads variants_empty [OF installed_loads] by (rule conjI)

text \<open>
  C7: the \<open>plugins\<close> field is an array of length one, and its element is what requiring
  the typography package returned.
\<close>

theorem plugins_typography:
  assumes "tailwind_config require module = Inr m"
  shows "\<exists>t. require ''@tailwindcss/typography'' = Inr t \<and>
             property (exports m) ''plugins'' = Some (JArray [t]) \<and>
             map_option length (property (exports m) ''plugins'' \<bind> as_array) = Some 1"
proof -
  from assms obtain t where
    t: "require ''@tailwindcss/typography'' = Inr t" and e: "exports m = module_exports t"
    by (rule exports_loaded)
  have "property (exports m) ''plugins'' = Some (JArray [t])"
    unfolding e by (rule plugins_exports)
  with t show ?thesis by simp
qed

theorem plugins_typography_witness:
  "tailwind_config installed fresh_module = Inr loaded \<and>
   (\<exists>t. installed ''@tailwindcss/typography'' = Inr t \<and>
        property (exports loaded) ''plugins'' = Some (JArray [t]) \<and>
        map_option length (property (exports loaded) ''plugins'' \<bind> as_array) = Some 1)"
  using installed_loads plugins_typography [OF installed_loads] by (rule conjI)






text \<open>
  C10: every pattern of the purge list ends in \<^verbatim>\<open>.html\<close> or \<^verbatim>\<open>.md\<close>; exactly one ends
  in \<^verbatim>\<open>.md\<close>, and it names files directly in the \<^verbatim>\<open>_posts\<close> directory. So every file
  that is scanned is an HTML file or a markdown file directly in \<^verbatim>\<open>_posts\<close>.
\<close>

theorem purge_extensions:
  assumes "tailwind_config require module = Inr m"
  shows "(\<exists>ps. (path (exports m) [''purge''] \<bind> as_strings) = Some ps \<and>
               list_all (\<lambda>s. suffix ''.html'' s \<or> suffix ''.md'' s) ps \<and>
               length (filter (suffix ''.md'') ps) = 1 \<and>
               list_all (\<lambda>s. prefix ''./_posts/'' s \<and> CHR ''/'' \<notin> set (drop (length ''./_posts/'') s))
                 (filter (suffix ''.md'') ps)) \<and>
         (\<forall>file. scanned (exports m) file \<longrightarrow>
            suffix ''.html'' file \<or>
            (\<exists>name. file = ''./_posts/'' @ name \<and> CHR ''/'' \<notin> set name \<and> suffix ''.md'' name))"
proof -
  from assms obtain t where e: "exports m = module_exports t"
    by (rule exports_loaded)
  have "\<exists>ps. (path (exports m) [''purge''] \<bind> as_strings) = Some ps \<and>
             list_all (\<lambda>s. suffix ''.html'' s \<or> suffix ''.md'' s) ps \<and>
             length (filter (suffix ''.md'') ps) = 1 \<and>
             list_all (\<lambda>s. prefix ''./_posts/'' s \<and> CHR ''/'' \<notin> set (drop (length ''./_posts/'') s))
               (filter (suffix ''.md'') ps)"
    unfolding e purge_exports by (simp add: suffix_to_prefix)
  moreover have "\<forall>file. scanned (exports m) file \<longrightarrow>
      suffix ''.html'' file \<or>
      (\<exists>name. file = ''./_posts/'' @ name \<and> CHR ''/'' \<notin> set name \<and> suffix ''.md'' name)"
    unfolding e using scanned_exports_only by blast
  ultimately show ?thesis ..
qed

theorem purge_extensions_witness:
  "tailwind_config installed fresh_module = Inr loaded \<and>
   scanned (exports loaded) ''./_posts/2021-03-05-router.md'' \<and>
   (\<exists>name. ''./_posts/2021-03-05-router.md'' = ''./_posts/'' @ name \<and>
          CHR ''/'' \<notin> set name \<and> suffix ''.md'' name)"
proof -
  have s: "scanned (exports loaded) ''./_posts/2021-03-05-router.md''"
    by (simp add: loaded_def scanned_post)
  have h: "\<not> suffix ''.html'' ''./_posts/2021-03-05-router.md''"
    by (simp add: suffix_to_prefix)
  from purge_extensions [OF installed_loads] s h installed_loads
  show ?thesis by blast
qed

end
